theory Spec2Isabelle
  imports Main
begin

section \<open>Separable convolution layers of tensorlayer\<close>

text \<open>
  A shallow embedding of \<^verbatim>\<open>tensorlayer/layers/convolution/separable_conv.py\<close>:
  the classes \<^verbatim>\<open>SeparableConv1d\<close> and \<^verbatim>\<open>SeparableConv2d\<close>, each with its
  constructor, \<^verbatim>\<open>__str__\<close> and \<^verbatim>\<open>__call__\<close>.

  Exceptions are values: a function that can raise returns a sum whose left
  summand holds the exception. Instance attributes are optional fields, an
  attribute that has not been assigned being \<open>None\<close>; reading it raises
  \<^verbatim>\<open>AttributeError\<close>. Python's own \<^verbatim>\<open>None\<close> is the \<open>None\<close> of an inner
  \<open>option\<close>. Tensors (\<open>'t\<close>), variables (\<open>'p\<close>), user initializers (\<open>'i\<close>), the
  graph (\<open>'g\<close>) and variable scopes (\<open>'v\<close>) belong to the tensor framework and
  stay abstract.
\<close>

subsection \<open>Exceptions\<close>

datatype error =
    ValueError string
  | AttributeError string
  | FrameworkError string

definition bind_err :: "error + 'a \<Rightarrow> ('a \<Rightarrow> error + 'b) \<Rightarrow> error + 'b" where
  "bind_err m f = (case m of Inl e \<Rightarrow> Inl e | Inr x \<Rightarrow> f x)"

type_synonym 'a attr = "'a option"

text \<open>\<^verbatim>\<open>self.nm\<close>: the value of the attribute, or \<^verbatim>\<open>AttributeError\<close> when it was never assigned.\<close>

definition getattr :: "string \<Rightarrow> 'a attr \<Rightarrow> error + 'a" where
  "getattr nm a = (case a of None \<Rightarrow> Inl (AttributeError nm) | Some v \<Rightarrow> Inr v)"

subsection \<open>Strings\<close>

text \<open>
  \<^verbatim>\<open>str.lower()\<close> on the ASCII range: the letters \<^verbatim>\<open>A\<close> to \<^verbatim>\<open>Z\<close> move to
  \<^verbatim>\<open>a\<close> to \<^verbatim>\<open>z\<close>, every other character stays. A string is its UTF-8 bytes;
  no code point outside ASCII has a lowercase form that is one of the letters
  of \<^verbatim>\<open>same\<close> or \<^verbatim>\<open>valid\<close> alone, so the outcome of the padding test is that of Python.
\<close>

definition lower_char :: "char \<Rightarrow> char" where
  "lower_char c =
     (case map_of (zip ''ABCDEFGHIJKLMNOPQRSTUVWXYZ'' ''abcdefghijklmnopqrstuvwxyz'') c of
        Some l \<Rightarrow> l
      | None \<Rightarrow> c)"

definition lower :: "string \<Rightarrow> string" where
  "lower s = map lower_char s"

subsection \<open>Values of the configuration\<close>

text \<open>
  An activation is a callable on tensors; \<open>act_name\<close> is its \<^verbatim>\<open>__name__\<close>, \<open>None\<close>
  for a callable that has none (a \<^verbatim>\<open>functools.partial\<close>, an object with \<^verbatim>\<open>__call__\<close>).
\<close>

record 't activation =
  act_name :: "string option"
  act_fn :: "'t \<Rightarrow> 't"

text \<open>\<^verbatim>\<open>tf.zeros_initializer()\<close>, the default of \<^verbatim>\<open>b_init\<close>, or an initializer of the caller.\<close>

datatype 'i initializer = zeros_initializer | user_initializer 'i

text \<open>A spatial size of the 2D layer: one integer, or a tuple or list of integers.\<close>

datatype size = SInt int | STuple "int list" | SList "int list"

text \<open>The previous layer; the base class reads its output tensor.\<close>

record 't prev =
  prev_outputs :: 't

text \<open>The arguments of a constructor (\<open>'sz\<close> is \<open>int\<close> for the 1D layer, \<open>size\<close> for the 2D layer).\<close>

record ('sz, 't, 'i) ctor_args =
  arg_prev_layer :: "'t prev option"
  arg_n_filter :: int
  arg_filter_size :: 'sz
  arg_strides :: 'sz
  arg_padding :: string
  arg_data_format :: string
  arg_dilation_rate :: 'sz
  arg_depth_multiplier :: int
  arg_depthwise_init :: "'i initializer option"
  arg_pointwise_init :: "'i initializer option"
  arg_b_init :: "'i initializer option"
  arg_act :: "'t activation option"
  arg_name :: string

text \<open>The instance: the attributes the constructor assigns, then those of \<^verbatim>\<open>__call__\<close> and of the base class.\<close>

record ('sz, 't, 'p, 'i) layer =
  prev_layer :: "'t prev option attr"
  n_filter :: "int attr"
  filter_size :: "'sz attr"
  strides :: "'sz attr"
  padding :: "string attr"
  data_format :: "string attr"
  dilation_rate :: "'sz attr"
  depth_multiplier :: "int attr"
  depthwise_init :: "'i initializer option attr"
  pointwise_init :: "'i initializer option attr"
  b_init :: "'i initializer option attr"
  act :: "'t activation option attr"
  name :: "string attr"
  inputs :: "'t attr"
  outputs :: "'t attr"
  local_weights :: "'p list attr"
  all_layers :: "'t list"
  all_params :: "'p list"

text \<open>An object on which no attribute has been assigned yet.\<close>

definition new_layer :: "('sz, 't, 'p, 'i) layer" where
  "new_layer = \<lparr> prev_layer = None, n_filter = None, filter_size = None, strides = None,
     padding = None, data_format = None, dilation_rate = None, depth_multiplier = None,
     depthwise_init = None, pointwise_init = None, b_init = None, act = None, name = None,
     inputs = None, outputs = None, local_weights = None, all_layers = [], all_params = [] \<rparr>"

subsection \<open>Constructors\<close>

text \<open>
  Modelled from the spec: the constructor of the base class \<^verbatim>\<open>Layer\<close>, which is not
  in this file. Construction "stores configuration; does not touch any tensor yet":
  the base constructor leaves the instance as the subclass has filled it.
\<close>

definition Layer_init :: "('sz, 't, 'p, 'i) layer \<Rightarrow> error \<times> ('sz, 't, 'p, 'i) layer + ('sz, 't, 'p, 'i) layer" where
  "Layer_init self = Inr self"

text \<open>A word between single quotes, as the messages of the two exceptions have them.\<close>

definition quoted :: "string \<Rightarrow> string" where
  "quoted s = [CHR 0x27] @ s @ [CHR 0x27]"

definition data_format_msg :: string where
  "data_format_msg = [CHR 0x60] @ ''data_format'' @ [CHR 0x60]
     @ '' value is not valid, should be either: ''
     @ quoted ''channels_last'' @ '' or '' @ quoted ''channels_first''"

definition padding_msg :: string where
  "padding_msg = [CHR 0x60] @ ''padding'' @ [CHR 0x60]
     @ '' value is not valid, should be either: ''
     @ quoted ''same'' @ '' or '' @ quoted ''valid''"

text \<open>
  The thirteen assignments \<^verbatim>\<open>self.prev_layer = prev_layer\<close> to \<^verbatim>\<open>self.name = name\<close>,
  the same in both classes.
\<close>

definition store_config :: "('sz, 't, 'i) ctor_args \<Rightarrow> ('sz, 't, 'p, 'i) layer \<Rightarrow> ('sz, 't, 'p, 'i) layer" where
  "store_config a self = self\<lparr>
     prev_layer := Some (arg_prev_layer a),
     n_filter := Some (arg_n_filter a),
     filter_size := Some (arg_filter_size a),
     strides := Some (arg_strides a),
     padding := Some (arg_padding a),
     data_format := Some (arg_data_format a),
     dilation_rate := Some (arg_dilation_rate a),
     depth_multiplier := Some (arg_depth_multiplier a),
     depthwise_init := Some (arg_depthwise_init a),
     pointwise_init := Some (arg_pointwise_init a),
     b_init := Some (arg_b_init a),
     act := Some (arg_act a),
     name := Some (arg_name a) \<rparr>"

text \<open>
  \<^verbatim>\<open>SeparableConv1d.__init__\<close>. The result is \<open>Inr\<close> of the constructed instance, or
  \<open>Inl\<close> of the exception raised and the instance as it was at that moment.
  The decorator \<^verbatim>\<open>deprecated_alias\<close> only lets a caller write \<^verbatim>\<open>layer=\<close> for
  \<^verbatim>\<open>prev_layer=\<close>; the arguments are taken here as the body receives them.
\<close>

definition SeparableConv1d_init ::
  "(int, 't, 'i) ctor_args \<Rightarrow> (int, 't, 'p, 'i) layer \<Rightarrow> error \<times> (int, 't, 'p, 'i) layer + (int, 't, 'p, 'i) layer" where
  "SeparableConv1d_init a self =
     (if arg_data_format a \<notin> set [''channels_last'', ''channels_first'']
      then Inl (ValueError data_format_msg, self)
      else if lower (arg_padding a) \<notin> set [''same'', ''valid'']
      then Inl (ValueError padding_msg, self)
      else Layer_init (store_config a self))"

text \<open>\<^verbatim>\<open>SeparableConv2d.__init__\<close>.\<close>

definition SeparableConv2d_init ::
  "(size, 't, 'i) ctor_args \<Rightarrow> (size, 't, 'p, 'i) layer \<Rightarrow> error \<times> (size, 't, 'p, 'i) layer + (size, 't, 'p, 'i) layer" where
  "SeparableConv2d_init a self =
     (if arg_data_format a \<notin> set [''channels_last'', ''channels_first'']
      then Inl (ValueError data_format_msg, self)
      else if lower (arg_padding a) \<notin> set [''same'', ''valid'']
      then Inl (ValueError padding_msg, self)
      else Layer_init (store_config a self))"

text \<open>The default values of the constructors' parameters.\<close>

definition SeparableConv1d_defaults :: "(int, 't, 'i) ctor_args" where
  "SeparableConv1d_defaults = \<lparr> arg_prev_layer = None, arg_n_filter = 100, arg_filter_size = 3,
     arg_strides = 1, arg_padding = ''valid'', arg_data_format = ''channels_last'',
     arg_dilation_rate = 1, arg_depth_multiplier = 1, arg_depthwise_init = None,
     arg_pointwise_init = None, arg_b_init = Some zeros_initializer, arg_act = None,
     arg_name = ''separable_conv1d'' \<rparr>"

definition SeparableConv2d_defaults :: "(size, 't, 'i) ctor_args" where
  "SeparableConv2d_defaults = \<lparr> arg_prev_layer = None, arg_n_filter = 100,
     arg_filter_size = STuple [3, 3], arg_strides = STuple [1, 1], arg_padding = ''valid'',
     arg_data_format = ''channels_last'', arg_dilation_rate = STuple [1, 1],
     arg_depth_multiplier = 1, arg_depthwise_init = None, arg_pointwise_init = None,
     arg_b_init = Some zeros_initializer, arg_act = None, arg_name = ''separable_conv2d'' \<rparr>"

subsection \<open>Formatting\<close>

text \<open>The decimal digits of a natural number, and \<^verbatim>\<open>"%d" % i\<close> (also \<^verbatim>\<open>str(i)\<close>) of an integer.\<close>

definition digit :: "nat \<Rightarrow> char" where
  "digit d = ''0123456789'' ! d"

fun str_nat :: "nat \<Rightarrow> string" where
  "str_nat n = (if n < 10 then [digit n] else str_nat (n div 10) @ [digit (n mod 10)])"

declare str_nat.simps [simp del]

definition str_int :: "int \<Rightarrow> string" where
  "str_int i = (if i < 0 then CHR ''-'' # str_nat (nat (- i)) else str_nat (nat i))"

text \<open>\<^verbatim>\<open>sep.join(xs)\<close>.\<close>

fun join :: "string \<Rightarrow> string list \<Rightarrow> string" where
  "join sep [] = []"
| "join sep [x] = x"
| "join sep (x # y # ys) = x @ sep @ join sep (y # ys)"

text \<open>\<^verbatim>\<open>str\<close> of a size: \<^verbatim>\<open>3\<close>, \<^verbatim>\<open>(3, 3)\<close>, \<^verbatim>\<open>(3,)\<close>, \<^verbatim>\<open>[3, 3]\<close>.\<close>

fun str_size :: "size \<Rightarrow> string" where
  "str_size (SInt i) = str_int i"
| "str_size (STuple [x]) = ''('' @ str_int x @ '',)''"
| "str_size (STuple xs) = ''('' @ join '', '' (map str_int xs) @ '')''"
| "str_size (SList xs) = ''['' @ join '', '' (map str_int xs) @ '']''"

subsection \<open>The summary\<close>

text \<open>
  One \<^verbatim>\<open>try: additional_str.append(...) except AttributeError: pass\<close> block: the
  entry is appended, an \<^verbatim>\<open>AttributeError\<close> raised while it is built is dropped,
  any other exception goes on to the caller.
\<close>

definition try_append :: "string list \<Rightarrow> error + string \<Rightarrow> error + string list" where
  "try_append acc r =
     (case r of
        Inr s \<Rightarrow> Inr (acc @ [s])
      | Inl e \<Rightarrow> (case e of AttributeError _ \<Rightarrow> Inr acc | _ \<Rightarrow> Inl e))"

text \<open>
  \<^verbatim>\<open>"act: %s" % self.act.__name__ if self.act is not None else 'No Activation'\<close>:
  the conditional expression binds weaker than \<^verbatim>\<open>%\<close>.
\<close>

definition act_entry :: "('sz, 't, 'p, 'i) layer \<Rightarrow> error + string" where
  "act_entry self =
     bind_err (getattr ''act'' (act self)) (\<lambda>a.
       case a of
         None \<Rightarrow> Inr ''No Activation''
       | Some f \<Rightarrow> bind_err (getattr ''__name__'' (act_name f)) (\<lambda>n. Inr (''act: '' @ n)))"

text \<open>The list \<^verbatim>\<open>additional_str\<close> that \<^verbatim>\<open>SeparableConv1d.__str__\<close> builds.\<close>

definition SeparableConv1d_additional_str :: "(int, 't, 'p, 'i) layer \<Rightarrow> error + string list" where
  "SeparableConv1d_additional_str self =
     bind_err (try_append []
       (bind_err (getattr ''n_filter'' (n_filter self)) (\<lambda>v. Inr (''n_filter: '' @ str_int v)))) (\<lambda>s1.
     bind_err (try_append s1
       (bind_err (getattr ''filter_size'' (filter_size self)) (\<lambda>v. Inr (''filter_size: '' @ str_int v)))) (\<lambda>s2.
     bind_err (try_append s2
       (bind_err (getattr ''strides'' (strides self)) (\<lambda>v. Inr (''strides: '' @ str_int v)))) (\<lambda>s3.
     bind_err (try_append s3
       (bind_err (getattr ''padding'' (padding self)) (\<lambda>v. Inr (''padding: '' @ v)))) (\<lambda>s4.
     bind_err (try_append s4
       (bind_err (getattr ''dilation_rate'' (dilation_rate self)) (\<lambda>v. Inr (''dilation_rate: '' @ str_int v)))) (\<lambda>s5.
     bind_err (try_append s5
       (bind_err (getattr ''depth_multiplier'' (depth_multiplier self)) (\<lambda>v. Inr (''depth_multiplier: '' @ str_int v)))) (\<lambda>s6.
     try_append s6 (act_entry self)))))))"

text \<open>The list \<^verbatim>\<open>additional_str\<close> that \<^verbatim>\<open>SeparableConv2d.__str__\<close> builds.\<close>

definition SeparableConv2d_additional_str :: "(size, 't, 'p, 'i) layer \<Rightarrow> error + string list" where
  "SeparableConv2d_additional_str self =
     bind_err (try_append []
       (bind_err (getattr ''n_filter'' (n_filter self)) (\<lambda>v. Inr (''n_filter: '' @ str_int v)))) (\<lambda>s1.
     bind_err (try_append s1
       (bind_err (getattr ''filter_size'' (filter_size self)) (\<lambda>v. Inr (''filter_size: '' @ str_size v)))) (\<lambda>s2.
     bind_err (try_append s2
       (bind_err (getattr ''strides'' (strides self)) (\<lambda>v. Inr (''stride: '' @ str_size v)))) (\<lambda>s3.
     bind_err (try_append s3
       (bind_err (getattr ''padding'' (padding self)) (\<lambda>v. Inr (''padding: '' @ v)))) (\<lambda>s4.
     bind_err (try_append s4
       (bind_err (getattr ''dilation_rate'' (dilation_rate self)) (\<lambda>v. Inr (''dilation_rate: '' @ str_size v)))) (\<lambda>s5.
     bind_err (try_append s5
       (bind_err (getattr ''depth_multiplier'' (depth_multiplier self)) (\<lambda>v. Inr (''depth_multiplier: '' @ str_int v)))) (\<lambda>s6.
     try_append s6 (act_entry self)))))))"

text \<open>
  \<^verbatim>\<open>__str__\<close>: the list goes to \<^verbatim>\<open>self._str\<close> of the base class, which is not in
  this file and is the parameter \<open>base_str\<close> here.
\<close>

definition SeparableConv1d_str ::
  "((int, 't, 'p, 'i) layer \<Rightarrow> string list \<Rightarrow> error + string) \<Rightarrow> (int, 't, 'p, 'i) layer \<Rightarrow> error + string" where
  "SeparableConv1d_str base_str self = bind_err (SeparableConv1d_additional_str self) (base_str self)"

definition SeparableConv2d_str ::
  "((size, 't, 'p, 'i) layer \<Rightarrow> string list \<Rightarrow> error + string) \<Rightarrow> (size, 't, 'p, 'i) layer \<Rightarrow> error + string" where
  "SeparableConv2d_str base_str self = bind_err (SeparableConv2d_additional_str self) (base_str self)"

text \<open>
  The summary as the specification words it: the entries of the attributes that
  are set, in order, the others left out.
\<close>

definition entry :: "string \<Rightarrow> ('a \<Rightarrow> string) \<Rightarrow> 'a attr \<Rightarrow> string list" where
  "entry label fmt a = (case a of None \<Rightarrow> [] | Some v \<Rightarrow> [label @ fmt v])"

definition act_summary :: "('sz, 't, 'p, 'i) layer \<Rightarrow> string list" where
  "act_summary self =
     (case act self of
        None \<Rightarrow> []
      | Some None \<Rightarrow> [''No Activation'']
      | Some (Some f) \<Rightarrow> (case act_name f of None \<Rightarrow> [] | Some n \<Rightarrow> [''act: '' @ n]))"

definition summary1d :: "(int, 't, 'p, 'i) layer \<Rightarrow> string list" where
  "summary1d self =
     entry ''n_filter: '' str_int (n_filter self)
     @ entry ''filter_size: '' str_int (filter_size self)
     @ entry ''strides: '' str_int (strides self)
     @ entry ''padding: '' (\<lambda>v. v) (padding self)
     @ entry ''dilation_rate: '' str_int (dilation_rate self)
     @ entry ''depth_multiplier: '' str_int (depth_multiplier self)
     @ act_summary self"

definition summary2d :: "(size, 't, 'p, 'i) layer \<Rightarrow> string list" where
  "summary2d self =
     entry ''n_filter: '' str_int (n_filter self)
     @ entry ''filter_size: '' str_size (filter_size self)
     @ entry ''stride: '' str_size (strides self)
     @ entry ''padding: '' (\<lambda>v. v) (padding self)
     @ entry ''dilation_rate: '' str_size (dilation_rate self)
     @ entry ''depth_multiplier: '' str_int (depth_multiplier self)
     @ act_summary self"

subsection \<open>The tensor framework and the base class\<close>

text \<open>The keyword arguments of \<^verbatim>\<open>tf.layers.separable_conv1d\<close> and \<^verbatim>\<open>tf.layers.separable_conv2d\<close>.\<close>

record ('sz, 't, 'i) conv_kwargs =
  kw_inputs :: 't
  kw_filters :: int
  kw_kernel_size :: 'sz
  kw_strides :: 'sz
  kw_padding :: string
  kw_data_format :: string
  kw_dilation_rate :: 'sz
  kw_depth_multiplier :: int
  kw_activation :: "'t activation option"
  kw_use_bias :: bool
  kw_depthwise_initializer :: "'i initializer option"
  kw_pointwise_initializer :: "'i initializer option"
  kw_bias_initializer :: "'i initializer option"
  kw_trainable :: bool
  kw_reuse :: bool
  kw_name :: string

text \<open>
  What \<^verbatim>\<open>__call__\<close> uses of TensorFlow, as parameters: the reuse flag of the
  current variable scope, the entry into a variable scope, the name of a scope,
  the two primitives (run inside a scope, on a graph, giving the output tensor
  and the graph with the variables they made), the query of a collection by
  scope name, and the constant \<^verbatim>\<open>TF_GRAPHKEYS_VARIABLES\<close> of \<^verbatim>\<open>tensorlayer.layers.core\<close>.
\<close>

record ('t, 'p, 'i, 'g, 'v) framework =
  get_variable_scope_reuse :: "'g \<Rightarrow> bool"
  variable_scope :: "string \<Rightarrow> 'g \<Rightarrow> error + 'v"
  vs_name :: "'v \<Rightarrow> string"
  separable_conv1d :: "'v \<Rightarrow> (int, 't, 'i) conv_kwargs \<Rightarrow> 'g \<Rightarrow> error + 't \<times> 'g"
  separable_conv2d :: "'v \<Rightarrow> (size, 't, 'i) conv_kwargs \<Rightarrow> 'g \<Rightarrow> error + 't \<times> 'g"
  get_collection :: "string \<Rightarrow> string \<Rightarrow> 'g \<Rightarrow> 'p list"
  TF_GRAPHKEYS_VARIABLES :: string

text \<open>
  Modelled from the spec: \<^verbatim>\<open>Layer.__call__\<close> of the base class, which is not in this
  file. The base class exposes the "current input tensor", the output tensor of
  the predecessor.
\<close>

definition Layer_call :: "('sz, 't, 'p, 'i) layer \<Rightarrow> 't prev \<Rightarrow> ('sz, 't, 'p, 'i) layer" where
  "Layer_call self prev = self\<lparr>inputs := Some (prev_outputs prev)\<rparr>"

text \<open>
  Modelled from the spec: the helper \<^verbatim>\<open>_apply_activation\<close> of the base class, which
  is not in this file. "If an activation function is configured, applies it
  elementwise to the primitive's raw output; otherwise passes the output through
  unchanged": the helper returns the resulting tensor and changes nothing.
\<close>

definition apply_activation :: "('sz, 't, 'p, 'i) layer \<Rightarrow> 't \<Rightarrow> error + 't" where
  "apply_activation self logits =
     bind_err (getattr ''act'' (act self)) (\<lambda>a.
       case a of None \<Rightarrow> Inr logits | Some f \<Rightarrow> Inr (act_fn f logits))"

text \<open>
  Modelled from the spec: \<^verbatim>\<open>_add_layers\<close> of the base class, which "appends [the
  tensor] to the running output history".
\<close>

definition add_layers :: "('sz, 't, 'p, 'i) layer \<Rightarrow> 't \<Rightarrow> ('sz, 't, 'p, 'i) layer" where
  "add_layers self t = self\<lparr>all_layers := all_layers self @ [t]\<rparr>"

text \<open>
  Modelled from the spec: \<^verbatim>\<open>_add_params\<close> of the base class, which "registers them
  as this layer's owned parameters".
\<close>

definition add_params :: "('sz, 't, 'p, 'i) layer \<Rightarrow> 'p list \<Rightarrow> ('sz, 't, 'p, 'i) layer" where
  "add_params self ws = self\<lparr>all_params := all_params self @ ws\<rparr>"

text \<open>
  Modelled from the spec: the decorator \<^verbatim>\<open>force_return_self\<close> of
  \<^verbatim>\<open>tensorlayer.decorators\<close>, which is not in this file. The decorated method
  "returns the layer instance itself": the body runs, its own return value is
  dropped, and the value returned is the instance, in the state the body left it.
\<close>

definition force_return_self ::
  "('s \<Rightarrow> error + 'r \<times> 's \<times> 'g) \<Rightarrow> 's \<Rightarrow> error + 's \<times> 's \<times> 'g" where
  "force_return_self body self =
     bind_err (body self) (\<lambda>(r, self', g'). Inr (self', self', g'))"

subsection \<open>Apply\<close>

text \<open>
  The keyword arguments that \<^verbatim>\<open>SeparableConv1d.__call__\<close> builds for the primitive,
  the attributes read in the order of the call.
\<close>

definition SeparableConv1d_kwargs ::
  "(int, 't, 'p, 'i) layer \<Rightarrow> bool \<Rightarrow> bool \<Rightarrow> error + (int, 't, 'i) conv_kwargs" where
  "SeparableConv1d_kwargs self is_train is_name_reuse =
     bind_err (getattr ''inputs'' (inputs self)) (\<lambda>x.
     bind_err (getattr ''n_filter'' (n_filter self)) (\<lambda>nf.
     bind_err (getattr ''filter_size'' (filter_size self)) (\<lambda>fs.
     bind_err (getattr ''strides'' (strides self)) (\<lambda>st.
     bind_err (getattr ''padding'' (padding self)) (\<lambda>pd.
     bind_err (getattr ''data_format'' (data_format self)) (\<lambda>df.
     bind_err (getattr ''dilation_rate'' (dilation_rate self)) (\<lambda>dr.
     bind_err (getattr ''depth_multiplier'' (depth_multiplier self)) (\<lambda>dm.
     bind_err (getattr ''b_init'' (b_init self)) (\<lambda>bi.
     bind_err (getattr ''depthwise_init'' (depthwise_init self)) (\<lambda>di.
     bind_err (getattr ''pointwise_init'' (pointwise_init self)) (\<lambda>pwi.
     Inr \<lparr> kw_inputs = x, kw_filters = nf, kw_kernel_size = fs, kw_strides = st,
           kw_padding = pd, kw_data_format = df, kw_dilation_rate = dr,
           kw_depth_multiplier = dm, kw_activation = None,
           kw_use_bias = (if bi \<noteq> None then True else False),
           kw_depthwise_initializer = di, kw_pointwise_initializer = pwi,
           kw_bias_initializer = bi, kw_trainable = is_train, kw_reuse = is_name_reuse,
           kw_name = ''separable_conv1d'' \<rparr>)))))))))))"

text \<open>The keyword arguments that \<^verbatim>\<open>SeparableConv2d.__call__\<close> builds.\<close>

definition SeparableConv2d_kwargs ::
  "(size, 't, 'p, 'i) layer \<Rightarrow> bool \<Rightarrow> bool \<Rightarrow> error + (size, 't, 'i) conv_kwargs" where
  "SeparableConv2d_kwargs self is_train is_name_reuse =
     bind_err (getattr ''inputs'' (inputs self)) (\<lambda>x.
     bind_err (getattr ''n_filter'' (n_filter self)) (\<lambda>nf.
     bind_err (getattr ''filter_size'' (filter_size self)) (\<lambda>fs.
     bind_err (getattr ''strides'' (strides self)) (\<lambda>st.
     bind_err (getattr ''padding'' (padding self)) (\<lambda>pd.
     bind_err (getattr ''data_format'' (data_format self)) (\<lambda>df.
     bind_err (getattr ''dilation_rate'' (dilation_rate self)) (\<lambda>dr.
     bind_err (getattr ''depth_multiplier'' (depth_multiplier self)) (\<lambda>dm.
     bind_err (getattr ''b_init'' (b_init self)) (\<lambda>bi.
     bind_err (getattr ''depthwise_init'' (depthwise_init self)) (\<lambda>di.
     bind_err (getattr ''pointwise_init'' (pointwise_init self)) (\<lambda>pwi.
     Inr \<lparr> kw_inputs = x, kw_filters = nf, kw_kernel_size = fs, kw_strides = st,
           kw_padding = pd, kw_data_format = df, kw_dilation_rate = dr,
           kw_depth_multiplier = dm, kw_activation = None,
           kw_use_bias = (if bi \<noteq> None then True else False),
           kw_depthwise_initializer = di, kw_pointwise_initializer = pwi,
           kw_bias_initializer = bi, kw_trainable = is_train, kw_reuse = is_name_reuse,
           kw_name = ''separable_conv2d'' \<rparr>)))))))))))"

text \<open>
  The statements of \<^verbatim>\<open>__call__\<close> after the primitive has returned \<open>out\<close> and left
  the graph \<open>g'\<close>, the same in both classes: \<^verbatim>\<open>self.outputs\<close> is assigned, the
  activation helper is called and its value is not used, the collection of the
  scope becomes \<^verbatim>\<open>self._local_weights\<close>, and the outputs and the weights are
  registered.
\<close>

definition finish_call ::
  "('t, 'p, 'i, 'g, 'v) framework \<Rightarrow> 'v \<Rightarrow> ('sz, 't, 'p, 'i) layer \<Rightarrow> 't \<Rightarrow> 'g
     \<Rightarrow> error + unit \<times> ('sz, 't, 'p, 'i) layer \<times> 'g" where
  "finish_call fw vs self0 out g' =
     (let self1 = self0\<lparr>outputs := Some out\<rparr> in
      bind_err (getattr ''outputs'' (outputs self1)) (\<lambda>o1.
      bind_err (apply_activation self1 o1) (\<lambda>_.
      let self2 = self1\<lparr>local_weights :=
            Some (get_collection fw (TF_GRAPHKEYS_VARIABLES fw) (vs_name fw vs) g')\<rparr> in
      bind_err (getattr ''outputs'' (outputs self2)) (\<lambda>o2.
      let self3 = add_layers self2 o2 in
      bind_err (getattr ''_local_weights'' (local_weights self3)) (\<lambda>ws.
      Inr ((), add_params self3 ws, g'))))))"

text \<open>The body of \<^verbatim>\<open>SeparableConv1d.__call__\<close>, which returns \<^verbatim>\<open>None\<close>.\<close>

definition SeparableConv1d_call_body ::
  "('t, 'p, 'i, 'g, 'v) framework \<Rightarrow> 't prev \<Rightarrow> bool \<Rightarrow> 'g \<Rightarrow> (int, 't, 'p, 'i) layer
     \<Rightarrow> error + unit \<times> (int, 't, 'p, 'i) layer \<times> 'g" where
  "SeparableConv1d_call_body fw prev is_train g self =
     (let self0 = Layer_call self prev;
          is_name_reuse = get_variable_scope_reuse fw g in
      bind_err (getattr ''name'' (name self0)) (\<lambda>nm.
      bind_err (variable_scope fw nm g) (\<lambda>vs.
      bind_err (SeparableConv1d_kwargs self0 is_train is_name_reuse) (\<lambda>kw.
      bind_err (separable_conv1d fw vs kw g) (\<lambda>(out, g').
      finish_call fw vs self0 out g')))))"

text \<open>The body of \<^verbatim>\<open>SeparableConv2d.__call__\<close>.\<close>

definition SeparableConv2d_call_body ::
  "('t, 'p, 'i, 'g, 'v) framework \<Rightarrow> 't prev \<Rightarrow> bool \<Rightarrow> 'g \<Rightarrow> (size, 't, 'p, 'i) layer
     \<Rightarrow> error + unit \<times> (size, 't, 'p, 'i) layer \<times> 'g" where
  "SeparableConv2d_call_body fw prev is_train g self =
     (let self0 = Layer_call self prev;
          is_name_reuse = get_variable_scope_reuse fw g in
      bind_err (getattr ''name'' (name self0)) (\<lambda>nm.
      bind_err (variable_scope fw nm g) (\<lambda>vs.
      bind_err (SeparableConv2d_kwargs self0 is_train is_name_reuse) (\<lambda>kw.
      bind_err (separable_conv2d fw vs kw g) (\<lambda>(out, g').
      finish_call fw vs self0 out g')))))"

text \<open>
  \<^verbatim>\<open>__call__\<close> as the classes expose it, under \<^verbatim>\<open>@force_return_self\<close>: the value
  returned, the instance and the graph.
\<close>

definition SeparableConv1d_call ::
  "('t, 'p, 'i, 'g, 'v) framework \<Rightarrow> 't prev \<Rightarrow> bool \<Rightarrow> 'g \<Rightarrow> (int, 't, 'p, 'i) layer
     \<Rightarrow> error + (int, 't, 'p, 'i) layer \<times> (int, 't, 'p, 'i) layer \<times> 'g" where
  "SeparableConv1d_call fw prev is_train g = force_return_self (SeparableConv1d_call_body fw prev is_train g)"

definition SeparableConv2d_call ::
  "('t, 'p, 'i, 'g, 'v) framework \<Rightarrow> 't prev \<Rightarrow> bool \<Rightarrow> 'g \<Rightarrow> (size, 't, 'p, 'i) layer
     \<Rightarrow> error + (size, 't, 'p, 'i) layer \<times> (size, 't, 'p, 'i) layer \<times> 'g" where
  "SeparableConv2d_call fw prev is_train g = force_return_self (SeparableConv2d_call_body fw prev is_train g)"

subsection \<open>A framework to evaluate on\<close>

text \<open>
  A small instance of the framework for running the functions on concrete
  inputs: tensors are integers, the graph is the list of the names of its
  variables, a scope is its name, each primitive subtracts five from its input
  and makes one variable in the scope, and a collection is queried by prefix.
\<close>

definition relu :: "int activation" where
  "relu = \<lparr> act_name = Some ''relu'', act_fn = max 0 \<rparr>"

definition example_framework :: "(int, string, unit, string list, string) framework" where
  "example_framework = \<lparr>
     get_variable_scope_reuse = (\<lambda>g. False),
     variable_scope = (\<lambda>nm g. Inr nm),
     vs_name = (\<lambda>vs. vs),
     separable_conv1d = (\<lambda>vs kw g. Inr (kw_inputs kw - 5, g @ [vs @ ''/kernel''])),
     separable_conv2d = (\<lambda>vs kw g. Inr (kw_inputs kw - 5, g @ [vs @ ''/kernel''])),
     get_collection = (\<lambda>key scope g. filter (\<lambda>v. take (length scope) v = scope) g),
     TF_GRAPHKEYS_VARIABLES = ''variables'' \<rparr>"

definition failing_framework :: "(int, string, unit, string list, string) framework" where
  "failing_framework = example_framework\<lparr>
     separable_conv1d := (\<lambda>vs kw g. Inl (FrameworkError ''separable_conv1d'')),
     separable_conv2d := (\<lambda>vs kw g. Inl (FrameworkError ''separable_conv2d'')) \<rparr>"

definition relu_layer1d :: "(int, int, string, unit) layer" where
  "relu_layer1d = store_config (SeparableConv1d_defaults\<lparr>arg_act := Some relu\<rparr>) new_layer"

definition relu_layer2d :: "(size, int, string, unit) layer" where
  "relu_layer2d = store_config (SeparableConv2d_defaults\<lparr>arg_act := Some relu\<rparr>) new_layer"

text \<open>
  The same framework with primitives that return 1 when they are asked for a
  bias and 0 otherwise, so that the output shows the \<^verbatim>\<open>use_bias\<close> they received.
\<close>

definition bias_probe_framework :: "(int, string, unit, string list, string) framework" where
  "bias_probe_framework = example_framework\<lparr>
     separable_conv1d := (\<lambda>vs kw g. Inr (if kw_use_bias kw then 1 else 0, g)),
     separable_conv2d := (\<lambda>vs kw g. Inr (if kw_use_bias kw then 1 else 0, g)) \<rparr>"

section \<open>Properties\<close>

subsection \<open>Auxiliary facts\<close>

lemma lower_fixed:
  "lower ''channels_last'' = ''channels_last''"
  "lower ''channels_first'' = ''channels_first''"
  "lower ''same'' = ''same''"
  "lower ''valid'' = ''valid''"
  by (simp_all add: lower_def lower_char_def)

lemma msgs_differ: "data_format_msg \<noteq> padding_msg"
  by (simp add: data_format_msg_def padding_msg_def quoted_def)

lemma bind_err_Inr: "bind_err (Inr x) f = f x"
  by (simp add: bind_err_def)

lemma bind_err_Inl: "bind_err (Inl e) f = Inl e"
  by (simp add: bind_err_def)

lemma bind_err_eq_Inr: "bind_err m f = Inr y \<longleftrightarrow> (\<exists>x. m = Inr x \<and> f x = Inr y)"
  by (cases m) (simp_all add: bind_err_def)

lemma bind_err_eq_Inl: "bind_err m f = Inl e \<longleftrightarrow> m = Inl e \<or> (\<exists>x. m = Inr x \<and> f x = Inl e)"
  by (cases m) (simp_all add: bind_err_def)

lemma getattr_eq_Inr: "getattr nm a = Inr v \<longleftrightarrow> a = Some v"
  by (cases a) (simp_all add: getattr_def)

lemma getattr_eq_Inl: "getattr nm a = Inl e \<longleftrightarrow> a = None \<and> e = AttributeError nm"
  by (cases a) (auto simp: getattr_def)

lemma kwargs1d_Inl: "SeparableConv1d_kwargs self tr ru = Inl e \<Longrightarrow> \<exists>nm. e = AttributeError nm"
  unfolding SeparableConv1d_kwargs_def
  by (auto simp: bind_err_eq_Inl getattr_eq_Inl)

lemma kwargs2d_Inl: "SeparableConv2d_kwargs self tr ru = Inl e \<Longrightarrow> \<exists>nm. e = AttributeError nm"
  unfolding SeparableConv2d_kwargs_def
  by (auto simp: bind_err_eq_Inl getattr_eq_Inl)

lemma kwargs1d_use_bias:
  "SeparableConv1d_kwargs self tr ru = Inr kw \<Longrightarrow> kw_use_bias kw = (b_init self \<noteq> Some None)"
  unfolding SeparableConv1d_kwargs_def
  by (auto simp: bind_err_eq_Inr getattr_eq_Inr)

lemma kwargs2d_use_bias:
  "SeparableConv2d_kwargs self tr ru = Inr kw \<Longrightarrow> kw_use_bias kw = (b_init self \<noteq> Some None)"
  unfolding SeparableConv2d_kwargs_def
  by (auto simp: bind_err_eq_Inr getattr_eq_Inr)

lemma finish_call_eq:
  "finish_call fw vs self out g' =
     (case act self of
        None \<Rightarrow> Inl (AttributeError ''act'')
      | Some a \<Rightarrow> Inr ((), self\<lparr> outputs := Some out,
          local_weights := Some (get_collection fw (TF_GRAPHKEYS_VARIABLES fw) (vs_name fw vs) g'),
          all_layers := all_layers self @ [out],
          all_params := all_params self @ get_collection fw (TF_GRAPHKEYS_VARIABLES fw) (vs_name fw vs) g' \<rparr>, g'))"
  by (simp add: finish_call_def Let_def bind_err_def getattr_def apply_activation_def
      add_layers_def add_params_def split: option.splits)

lemma try_append_getattr:
  "try_append acc (bind_err (getattr nm a) (\<lambda>v. Inr (label @ fmt v))) = Inr (acc @ entry label fmt a)"
  by (cases a) (simp_all add: try_append_def bind_err_def getattr_def entry_def)


lemma try_append_act_entry:
  "try_append acc (act_entry self) = Inr (acc @ act_summary self)"
  by (simp add: try_append_def bind_err_def getattr_def act_entry_def act_summary_def
      split: option.splits)

lemma summary_defaults:
  "summary1d (store_config SeparableConv1d_defaults new_layer) =
     [''n_filter: 100'', ''filter_size: 3'', ''strides: 1'', ''padding: valid'',
      ''dilation_rate: 1'', ''depth_multiplier: 1'', ''No Activation'']"
  "summary2d (store_config SeparableConv2d_defaults new_layer) =
     [''n_filter: 100'', ''filter_size: (3, 3)'', ''stride: (1, 1)'', ''padding: valid'',
      ''dilation_rate: (1, 1)'', ''depth_multiplier: 1'', ''No Activation'']"
  by (simp_all add: summary1d_def summary2d_def store_config_def SeparableConv1d_defaults_def
      SeparableConv2d_defaults_def entry_def act_summary_def str_int_def str_nat.simps digit_def)

lemma kwargs1d_constructed:
  "SeparableConv1d_kwargs (Layer_call (store_config a s0) prev) tr ru =
     Inr \<lparr> kw_inputs = prev_outputs prev, kw_filters = arg_n_filter a,
           kw_kernel_size = arg_filter_size a, kw_strides = arg_strides a,
           kw_padding = arg_padding a, kw_data_format = arg_data_format a,
           kw_dilation_rate = arg_dilation_rate a, kw_depth_multiplier = arg_depth_multiplier a,
           kw_activation = None, kw_use_bias = (arg_b_init a \<noteq> None),
           kw_depthwise_initializer = arg_depthwise_init a,
           kw_pointwise_initializer = arg_pointwise_init a,
           kw_bias_initializer = arg_b_init a, kw_trainable = tr, kw_reuse = ru,
           kw_name = ''separable_conv1d'' \<rparr>"
  by (simp add: SeparableConv1d_kwargs_def Layer_call_def store_config_def getattr_def bind_err_def)

lemma kwargs2d_constructed:
  "SeparableConv2d_kwargs (Layer_call (store_config a s0) prev) tr ru =
     Inr \<lparr> kw_inputs = prev_outputs prev, kw_filters = arg_n_filter a,
           kw_kernel_size = arg_filter_size a, kw_strides = arg_strides a,
           kw_padding = arg_padding a, kw_data_format = arg_data_format a,
           kw_dilation_rate = arg_dilation_rate a, kw_depth_multiplier = arg_depth_multiplier a,
           kw_activation = None, kw_use_bias = (arg_b_init a \<noteq> None),
           kw_depthwise_initializer = arg_depthwise_init a,
           kw_pointwise_initializer = arg_pointwise_init a,
           kw_bias_initializer = arg_b_init a, kw_trainable = tr, kw_reuse = ru,
           kw_name = ''separable_conv2d'' \<rparr>"
  by (simp add: SeparableConv2d_kwargs_def Layer_call_def store_config_def getattr_def bind_err_def)

lemma init1d_Inr: "SeparableConv1d_init a s0 = Inr s \<Longrightarrow> s = store_config a s0"
  by (simp add: SeparableConv1d_init_def Layer_init_def split: if_splits)

lemma init2d_Inr: "SeparableConv2d_init a s0 = Inr s \<Longrightarrow> s = store_config a s0"
  by (simp add: SeparableConv2d_init_def Layer_init_def split: if_splits)

lemma init_Inl:
  "SeparableConv1d_init a self1 = Inl (e, s1) \<Longrightarrow>
     s1 = self1 \<and> (e = ValueError data_format_msg \<or> e = ValueError padding_msg)"
  "SeparableConv2d_init b self2 = Inl (e, s2) \<Longrightarrow>
     s2 = self2 \<and> (e = ValueError data_format_msg \<or> e = ValueError padding_msg)"
  by (auto simp: SeparableConv1d_init_def SeparableConv2d_init_def Layer_init_def split: if_splits)

lemma finish_call_constructed:
  "finish_call fw vs (Layer_call (store_config a s0) prev) out g' =
     Inr ((), (Layer_call (store_config a s0) prev)\<lparr> outputs := Some out,
          local_weights := Some (get_collection fw (TF_GRAPHKEYS_VARIABLES fw) (vs_name fw vs) g'),
          all_layers := all_layers s0 @ [out],
          all_params := all_params s0 @ get_collection fw (TF_GRAPHKEYS_VARIABLES fw) (vs_name fw vs) g' \<rparr>, g')"
  by (simp add: finish_call_eq Layer_call_def store_config_def)

lemma call_body1d_constructed:
  "SeparableConv1d_call_body fw prev tr g (store_config a s0) =
     bind_err (variable_scope fw (arg_name a) g) (\<lambda>vs.
     bind_err (SeparableConv1d_kwargs (Layer_call (store_config a s0) prev) tr (get_variable_scope_reuse fw g)) (\<lambda>kw.
     bind_err (separable_conv1d fw vs kw g) (\<lambda>(out, g').
     finish_call fw vs (Layer_call (store_config a s0) prev) out g')))"
  by (simp add: SeparableConv1d_call_body_def Let_def bind_err_Inr getattr_def Layer_call_def store_config_def)

lemma call_body2d_constructed:
  "SeparableConv2d_call_body fw prev tr g (store_config a s0) =
     bind_err (variable_scope fw (arg_name a) g) (\<lambda>vs.
     bind_err (SeparableConv2d_kwargs (Layer_call (store_config a s0) prev) tr (get_variable_scope_reuse fw g)) (\<lambda>kw.
     bind_err (separable_conv2d fw vs kw g) (\<lambda>(out, g').
     finish_call fw vs (Layer_call (store_config a s0) prev) out g')))"
  by (simp add: SeparableConv2d_call_body_def Let_def bind_err_Inr getattr_def Layer_call_def store_config_def)

lemma force_return_self_Inl: "force_return_self body self = Inl e \<longleftrightarrow> body self = Inl e"
  by (cases "body self") (auto simp: force_return_self_def bind_err_def)

lemma force_return_self_Inr:
  "force_return_self body self = Inr (r, s, g) \<longleftrightarrow> r = s \<and> (\<exists>u. body self = Inr (u, s, g))"
  by (cases "body self") (auto simp: force_return_self_def bind_err_def)

lemma kwargs_use_bias_update:
  "SeparableConv1d_kwargs self tr ru = Inr kw \<Longrightarrow> kw\<lparr>kw_use_bias := (b_init self \<noteq> Some None)\<rparr> = kw"
  "SeparableConv2d_kwargs self2 tr ru = Inr kw2 \<Longrightarrow> kw2\<lparr>kw_use_bias := (b_init self2 \<noteq> Some None)\<rparr> = kw2"
  using kwargs1d_use_bias [of self tr ru kw] kwargs2d_use_bias [of self2 tr ru kw2] by simp_all

lemma finish_call_update_conv:
  "finish_call (fw\<lparr>separable_conv1d := f1\<rparr>) vs self out g' = finish_call fw vs self out g'"
  "finish_call (fw\<lparr>separable_conv2d := f2\<rparr>) vs self out g' = finish_call fw vs self out g'"
  by (simp_all add: finish_call_def)

lemma call_body1d_use_bias:
  "SeparableConv1d_call_body
     (fw\<lparr>separable_conv1d := \<lambda>vs kw. separable_conv1d fw vs (kw\<lparr>kw_use_bias := (b_init self \<noteq> Some None)\<rparr>)\<rparr>)
     prev tr g self = SeparableConv1d_call_body fw prev tr g self"
proof -
  have b: "b_init (Layer_call self prev) = b_init self"
    by (simp add: Layer_call_def)
  show ?thesis
    unfolding SeparableConv1d_call_body_def Let_def
    apply (cases "getattr ''name'' (name (Layer_call self prev))"; simp add: bind_err_def)
    subgoal for nm
      apply (cases "variable_scope fw nm g"; simp)
      subgoal for vs
        apply (cases "SeparableConv1d_kwargs (Layer_call self prev) tr (get_variable_scope_reuse fw g)"; simp)
        subgoal for kw
          using kwargs_use_bias_update(1) [of "Layer_call self prev" tr "get_variable_scope_reuse fw g" kw]
          by (simp add: b finish_call_update_conv split: sum.splits prod.splits)
        done
      done
    done
qed

lemma call_body2d_use_bias:
  "SeparableConv2d_call_body
     (fw\<lparr>separable_conv2d := \<lambda>vs kw. separable_conv2d fw vs (kw\<lparr>kw_use_bias := (b_init self \<noteq> Some None)\<rparr>)\<rparr>)
     prev tr g self = SeparableConv2d_call_body fw prev tr g self"
proof -
  have b: "b_init (Layer_call self prev) = b_init self"
    by (simp add: Layer_call_def)
  show ?thesis
    unfolding SeparableConv2d_call_body_def Let_def
    apply (cases "getattr ''name'' (name (Layer_call self prev))"; simp add: bind_err_def)
    subgoal for nm
      apply (cases "variable_scope fw nm g"; simp)
      subgoal for vs
        apply (cases "SeparableConv2d_kwargs (Layer_call self prev) tr (get_variable_scope_reuse fw g)"; simp)
        subgoal for kw
          using kwargs_use_bias_update(2) [of "Layer_call self prev" tr "get_variable_scope_reuse fw g" kw]
          by (simp add: b finish_call_update_conv split: sum.splits prod.splits)
        done
      done
    done
qed

lemma call1d_constructed_Inl:
  assumes "SeparableConv1d_call fw prev tr g (store_config a s0) = Inl e"
  shows "variable_scope fw (arg_name a) g = Inl e \<or>
         (\<exists>vs kw. variable_scope fw (arg_name a) g = Inr vs \<and> separable_conv1d fw vs kw g = Inl e)"
  using assms
  unfolding SeparableConv1d_call_def force_return_self_Inl call_body1d_constructed
    kwargs1d_constructed finish_call_constructed
  by (auto simp: bind_err_eq_Inl)

lemma call2d_constructed_Inl:
  assumes "SeparableConv2d_call fw prev tr g (store_config a s0) = Inl e"
  shows "variable_scope fw (arg_name a) g = Inl e \<or>
         (\<exists>vs kw. variable_scope fw (arg_name a) g = Inr vs \<and> separable_conv2d fw vs kw g = Inl e)"
  using assms
  unfolding SeparableConv2d_call_def force_return_self_Inl call_body2d_constructed
    kwargs2d_constructed finish_call_constructed
  by (auto simp: bind_err_eq_Inl)

lemma call1d_constructed_Inr:
  assumes "SeparableConv1d_call fw prev tr g (store_config a s0) = Inr (r, s, g')"
  shows "\<exists>vs kw out. variable_scope fw (arg_name a) g = Inr vs \<and>
           separable_conv1d fw vs kw g = Inr (out, g') \<and>
           outputs s = Some out \<and> all_layers s = all_layers s0 @ [out] \<and>
           local_weights s = Some (get_collection fw (TF_GRAPHKEYS_VARIABLES fw) (vs_name fw vs) g') \<and>
           all_params s = all_params s0 @ get_collection fw (TF_GRAPHKEYS_VARIABLES fw) (vs_name fw vs) g'"
  using assms
  unfolding SeparableConv1d_call_def force_return_self_Inr call_body1d_constructed
    kwargs1d_constructed finish_call_constructed
  by (auto simp: bind_err_eq_Inr)

lemma call2d_constructed_Inr:
  assumes "SeparableConv2d_call fw prev tr g (store_config a s0) = Inr (r, s, g')"
  shows "\<exists>vs kw out. variable_scope fw (arg_name a) g = Inr vs \<and>
           separable_conv2d fw vs kw g = Inr (out, g') \<and>
           outputs s = Some out \<and> all_layers s = all_layers s0 @ [out] \<and>
           local_weights s = Some (get_collection fw (TF_GRAPHKEYS_VARIABLES fw) (vs_name fw vs) g') \<and>
           all_params s = all_params s0 @ get_collection fw (TF_GRAPHKEYS_VARIABLES fw) (vs_name fw vs) g'"
  using assms
  unfolding SeparableConv2d_call_def force_return_self_Inr call_body2d_constructed
    kwargs2d_constructed finish_call_constructed
  by (auto simp: bind_err_eq_Inr)

lemma example_init:
  "SeparableConv1d_init (SeparableConv1d_defaults\<lparr>arg_act := Some relu\<rparr>) new_layer = Inr relu_layer1d"
  "SeparableConv2d_init (SeparableConv2d_defaults\<lparr>arg_act := Some relu\<rparr>) new_layer = Inr relu_layer2d"
  by (simp_all add: SeparableConv1d_init_def SeparableConv2d_init_def Layer_init_def
      relu_layer1d_def relu_layer2d_def SeparableConv1d_defaults_def SeparableConv2d_defaults_def
      lower_fixed)

lemma example_init_fails:
  "SeparableConv1d_init (SeparableConv1d_defaults\<lparr>arg_data_format := ''NCHW''\<rparr>)
     (new_layer :: (int, int, string, unit) layer) = Inl (ValueError data_format_msg, new_layer)"
  "SeparableConv2d_init (SeparableConv2d_defaults\<lparr>arg_padding := ''full''\<rparr>)
     (new_layer :: (size, int, string, unit) layer) = Inl (ValueError padding_msg, new_layer)"
  by (simp_all add: SeparableConv1d_init_def SeparableConv2d_init_def
      SeparableConv1d_defaults_def SeparableConv2d_defaults_def lower_def lower_char_def)

lemma example_kwargs:
  "SeparableConv1d_kwargs (Layer_call relu_layer1d \<lparr>prev_outputs = 3\<rparr>) True False =
     Inr \<lparr> kw_inputs = 3, kw_filters = 100, kw_kernel_size = 3, kw_strides = 1,
           kw_padding = ''valid'', kw_data_format = ''channels_last'', kw_dilation_rate = 1,
           kw_depth_multiplier = 1, kw_activation = None, kw_use_bias = True,
           kw_depthwise_initializer = None, kw_pointwise_initializer = None,
           kw_bias_initializer = Some zeros_initializer, kw_trainable = True, kw_reuse = False,
           kw_name = ''separable_conv1d'' \<rparr>"
  "SeparableConv2d_kwargs (Layer_call (relu_layer2d\<lparr>b_init := Some None\<rparr>) \<lparr>prev_outputs = 3\<rparr>) True False =
     Inr \<lparr> kw_inputs = 3, kw_filters = 100, kw_kernel_size = STuple [3, 3],
           kw_strides = STuple [1, 1], kw_padding = ''valid'', kw_data_format = ''channels_last'',
           kw_dilation_rate = STuple [1, 1], kw_depth_multiplier = 1, kw_activation = None,
           kw_use_bias = False, kw_depthwise_initializer = None, kw_pointwise_initializer = None,
           kw_bias_initializer = None, kw_trainable = True, kw_reuse = False,
           kw_name = ''separable_conv2d'' \<rparr>"
  by (simp_all add: SeparableConv1d_kwargs_def SeparableConv2d_kwargs_def relu_layer1d_def
      relu_layer2d_def Layer_call_def store_config_def SeparableConv1d_defaults_def
      SeparableConv2d_defaults_def getattr_def bind_err_def)

lemma example_call_body1d:
  "SeparableConv1d_call_body example_framework \<lparr>prev_outputs = 3\<rparr> True [] relu_layer1d =
     Inr ((), (Layer_call relu_layer1d \<lparr>prev_outputs = 3\<rparr>)\<lparr> outputs := Some (- 2),
          local_weights := Some [''separable_conv1d/kernel''],
          all_layers := [- 2],
          all_params := [''separable_conv1d/kernel''] \<rparr>, [''separable_conv1d/kernel''])"
  unfolding relu_layer1d_def call_body1d_constructed kwargs1d_constructed
  by (simp add: example_framework_def bind_err_Inr finish_call_constructed SeparableConv1d_defaults_def new_layer_def)

lemma example_call_body2d:
  "SeparableConv2d_call_body example_framework \<lparr>prev_outputs = 3\<rparr> True [] relu_layer2d =
     Inr ((), (Layer_call relu_layer2d \<lparr>prev_outputs = 3\<rparr>)\<lparr> outputs := Some (- 2),
          local_weights := Some [''separable_conv2d/kernel''],
          all_layers := [- 2],
          all_params := [''separable_conv2d/kernel''] \<rparr>, [''separable_conv2d/kernel''])"
  unfolding relu_layer2d_def call_body2d_constructed kwargs2d_constructed
  by (simp add: example_framework_def bind_err_Inr finish_call_constructed SeparableConv2d_defaults_def new_layer_def)

lemma example_call_fails:
  "SeparableConv1d_call failing_framework \<lparr>prev_outputs = 3\<rparr> True [] relu_layer1d
     = Inl (FrameworkError ''separable_conv1d'')"
  "SeparableConv2d_call failing_framework \<lparr>prev_outputs = 3\<rparr> True [] relu_layer2d
     = Inl (FrameworkError ''separable_conv2d'')"
  unfolding SeparableConv1d_call_def SeparableConv2d_call_def force_return_self_Inl
    relu_layer1d_def relu_layer2d_def call_body1d_constructed call_body2d_constructed
    kwargs1d_constructed kwargs2d_constructed
  by (simp_all add: failing_framework_def example_framework_def bind_err_def
      SeparableConv1d_defaults_def SeparableConv2d_defaults_def)

lemma call1d_constructed:
  "SeparableConv1d_call fw prev tr g (store_config a s0) =
     bind_err (variable_scope fw (arg_name a) g) (\<lambda>vs.
     bind_err (separable_conv1d fw vs
        \<lparr> kw_inputs = prev_outputs prev, kw_filters = arg_n_filter a,
          kw_kernel_size = arg_filter_size a, kw_strides = arg_strides a,
          kw_padding = arg_padding a, kw_data_format = arg_data_format a,
          kw_dilation_rate = arg_dilation_rate a, kw_depth_multiplier = arg_depth_multiplier a,
          kw_activation = None, kw_use_bias = (arg_b_init a \<noteq> None),
          kw_depthwise_initializer = arg_depthwise_init a,
          kw_pointwise_initializer = arg_pointwise_init a,
          kw_bias_initializer = arg_b_init a, kw_trainable = tr,
          kw_reuse = get_variable_scope_reuse fw g, kw_name = ''separable_conv1d'' \<rparr> g) (\<lambda>(out, g').
     bind_err (finish_call fw vs (Layer_call (store_config a s0) prev) out g') (\<lambda>(r, s, g''). Inr (s, s, g''))))"
  unfolding SeparableConv1d_call_def force_return_self_def call_body1d_constructed kwargs1d_constructed
  by (simp add: bind_err_def split: sum.splits prod.splits)

lemma call2d_constructed:
  "SeparableConv2d_call fw prev tr g (store_config a s0) =
     bind_err (variable_scope fw (arg_name a) g) (\<lambda>vs.
     bind_err (separable_conv2d fw vs
        \<lparr> kw_inputs = prev_outputs prev, kw_filters = arg_n_filter a,
          kw_kernel_size = arg_filter_size a, kw_strides = arg_strides a,
          kw_padding = arg_padding a, kw_data_format = arg_data_format a,
          kw_dilation_rate = arg_dilation_rate a, kw_depth_multiplier = arg_depth_multiplier a,
          kw_activation = None, kw_use_bias = (arg_b_init a \<noteq> None),
          kw_depthwise_initializer = arg_depthwise_init a,
          kw_pointwise_initializer = arg_pointwise_init a,
          kw_bias_initializer = arg_b_init a, kw_trainable = tr,
          kw_reuse = get_variable_scope_reuse fw g, kw_name = ''separable_conv2d'' \<rparr> g) (\<lambda>(out, g').
     bind_err (finish_call fw vs (Layer_call (store_config a s0) prev) out g') (\<lambda>(r, s, g''). Inr (s, s, g''))))"
  unfolding SeparableConv2d_call_def force_return_self_def call_body2d_constructed kwargs2d_constructed
  by (simp add: bind_err_def split: sum.splits prod.splits)

lemma example_init_no_bias:
  "SeparableConv1d_init (SeparableConv1d_defaults\<lparr>arg_b_init := None\<rparr>) (new_layer :: (int, int, string, unit) layer)
     = Inr (store_config (SeparableConv1d_defaults\<lparr>arg_b_init := None\<rparr>) new_layer)"
  "SeparableConv2d_init (SeparableConv2d_defaults\<lparr>arg_b_init := None\<rparr>) (new_layer :: (size, int, string, unit) layer)
     = Inr (store_config (SeparableConv2d_defaults\<lparr>arg_b_init := None\<rparr>) new_layer)"
  by (simp_all add: SeparableConv1d_init_def SeparableConv2d_init_def Layer_init_def
      SeparableConv1d_defaults_def SeparableConv2d_defaults_def lower_fixed)

subsection \<open>Validation in the constructors\<close>

text \<open>
  C3: a \<^verbatim>\<open>data_format\<close> other than \<^verbatim>\<open>channels_last\<close> and \<^verbatim>\<open>channels_first\<close> makes
  both constructors raise \<^verbatim>\<open>ValueError\<close> with the message of the channel order;
  with one of the two values the check passes, and the constructor then depends
  on the padding alone.
\<close>

theorem C3_data_format_check:
  "(arg_data_format a \<notin> {''channels_last'', ''channels_first''} \<longrightarrow>
      SeparableConv1d_init a self1 = Inl (ValueError data_format_msg, self1)) \<and>
   (arg_data_format b \<notin> {''channels_last'', ''channels_first''} \<longrightarrow>
      SeparableConv2d_init b self2 = Inl (ValueError data_format_msg, self2)) \<and>
   (arg_data_format a \<in> {''channels_last'', ''channels_first''} \<longrightarrow>
      SeparableConv1d_init a self1 =
        (if lower (arg_padding a) \<in> {''same'', ''valid''} then Inr (store_config a self1)
         else Inl (ValueError padding_msg, self1))) \<and>
   (arg_data_format b \<in> {''channels_last'', ''channels_first''} \<longrightarrow>
      SeparableConv2d_init b self2 =
        (if lower (arg_padding b) \<in> {''same'', ''valid''} then Inr (store_config b self2)
         else Inl (ValueError padding_msg, self2)))"
  by (simp add: SeparableConv1d_init_def SeparableConv2d_init_def Layer_init_def)

theorem C3_data_format_check_witness:
  "SeparableConv1d_init (SeparableConv1d_defaults\<lparr>arg_data_format := ''NHWC''\<rparr>) (new_layer :: (int, int, nat, unit) layer)
     = Inl (ValueError data_format_msg, new_layer) \<and>
   SeparableConv2d_init (SeparableConv2d_defaults\<lparr>arg_data_format := ''''\<rparr>) (new_layer :: (size, int, nat, unit) layer)
     = Inl (ValueError data_format_msg, new_layer) \<and>
   SeparableConv1d_init (SeparableConv1d_defaults\<lparr>arg_data_format := ''channels_first''\<rparr>) (new_layer :: (int, int, nat, unit) layer)
     = Inr (store_config (SeparableConv1d_defaults\<lparr>arg_data_format := ''channels_first''\<rparr>) new_layer) \<and>
   SeparableConv2d_init SeparableConv2d_defaults (new_layer :: (size, int, nat, unit) layer)
     = Inr (store_config SeparableConv2d_defaults new_layer)"
  using C3_data_format_check [where a = "SeparableConv1d_defaults\<lparr>arg_data_format := ''NHWC''\<rparr>"
      and b = "SeparableConv2d_defaults\<lparr>arg_data_format := ''''\<rparr>"
      and ?self1.0 = "new_layer :: (int, int, nat, unit) layer" and ?self2.0 = "new_layer :: (size, int, nat, unit) layer"]
    C3_data_format_check [where a = "SeparableConv1d_defaults\<lparr>arg_data_format := ''channels_first''\<rparr>"
      and b = "SeparableConv2d_defaults"
      and ?self1.0 = "new_layer :: (int, int, nat, unit) layer" and ?self2.0 = "new_layer :: (size, int, nat, unit) layer"]
  by (simp add: SeparableConv1d_defaults_def SeparableConv2d_defaults_def lower_fixed)

text \<open>
  C4: a \<^verbatim>\<open>padding\<close> whose lowercase form is neither \<^verbatim>\<open>same\<close> nor \<^verbatim>\<open>valid\<close> makes
  both constructors raise \<^verbatim>\<open>ValueError\<close>; a padding whose lowercase form is one
  of the two, in any case, passes the padding check, and the constructor then
  depends on the channel order alone.
\<close>

theorem C4_padding_check:
  "(lower (arg_padding a) \<notin> {''same'', ''valid''} \<longrightarrow>
      SeparableConv1d_init a self1 =
        Inl (ValueError (if arg_data_format a \<in> {''channels_last'', ''channels_first''}
                         then padding_msg else data_format_msg), self1)) \<and>
   (lower (arg_padding b) \<notin> {''same'', ''valid''} \<longrightarrow>
      SeparableConv2d_init b self2 =
        Inl (ValueError (if arg_data_format b \<in> {''channels_last'', ''channels_first''}
                         then padding_msg else data_format_msg), self2)) \<and>
   (lower (arg_padding a) \<in> {''same'', ''valid''} \<longrightarrow>
      SeparableConv1d_init a self1 =
        (if arg_data_format a \<in> {''channels_last'', ''channels_first''}
         then Inr (store_config a self1) else Inl (ValueError data_format_msg, self1))) \<and>
   (lower (arg_padding b) \<in> {''same'', ''valid''} \<longrightarrow>
      SeparableConv2d_init b self2 =
        (if arg_data_format b \<in> {''channels_last'', ''channels_first''}
         then Inr (store_config b self2) else Inl (ValueError data_format_msg, self2)))"
  by (simp add: SeparableConv1d_init_def SeparableConv2d_init_def Layer_init_def)

theorem C4_padding_check_witness:
  "SeparableConv1d_init (SeparableConv1d_defaults\<lparr>arg_padding := ''full''\<rparr>) (new_layer :: (int, int, nat, unit) layer)
     = Inl (ValueError padding_msg, new_layer) \<and>
   SeparableConv2d_init (SeparableConv2d_defaults\<lparr>arg_padding := ''Sam''\<rparr>) (new_layer :: (size, int, nat, unit) layer)
     = Inl (ValueError padding_msg, new_layer) \<and>
   SeparableConv1d_init (SeparableConv1d_defaults\<lparr>arg_padding := ''SAME''\<rparr>) (new_layer :: (int, int, nat, unit) layer)
     = Inr (store_config (SeparableConv1d_defaults\<lparr>arg_padding := ''SAME''\<rparr>) new_layer) \<and>
   SeparableConv2d_init (SeparableConv2d_defaults\<lparr>arg_padding := ''Valid''\<rparr>) (new_layer :: (size, int, nat, unit) layer)
     = Inr (store_config (SeparableConv2d_defaults\<lparr>arg_padding := ''Valid''\<rparr>) new_layer)"
  using C4_padding_check [where a = "SeparableConv1d_defaults\<lparr>arg_padding := ''full''\<rparr>"
      and b = "SeparableConv2d_defaults\<lparr>arg_padding := ''Sam''\<rparr>"
      and ?self1.0 = "new_layer :: (int, int, nat, unit) layer" and ?self2.0 = "new_layer :: (size, int, nat, unit) layer"]
    C4_padding_check [where a = "SeparableConv1d_defaults\<lparr>arg_padding := ''SAME''\<rparr>"
      and b = "SeparableConv2d_defaults\<lparr>arg_padding := ''Valid''\<rparr>"
      and ?self1.0 = "new_layer :: (int, int, nat, unit) layer" and ?self2.0 = "new_layer :: (size, int, nat, unit) layer"]
  by (simp add: SeparableConv1d_defaults_def SeparableConv2d_defaults_def lower_def lower_char_def)

text \<open>
  C10: the check of \<^verbatim>\<open>data_format\<close> is case-sensitive: a case variant of an
  accepted value that is not all lowercase is refused with the message of the
  channel order, while such a variant of an accepted padding is accepted.
\<close>

theorem C10_data_format_case_sensitive:
  "(lower d \<in> {''channels_last'', ''channels_first''} \<and> d \<noteq> lower d \<longrightarrow>
      SeparableConv1d_init (a\<lparr>arg_data_format := d\<rparr>) self1 = Inl (ValueError data_format_msg, self1) \<and>
      SeparableConv2d_init (b\<lparr>arg_data_format := d\<rparr>) self2 = Inl (ValueError data_format_msg, self2)) \<and>
   (lower p \<in> {''same'', ''valid''} \<and> p \<noteq> lower p \<longrightarrow>
      SeparableConv1d_init (a\<lparr>arg_data_format := ''channels_last'', arg_padding := p\<rparr>) self1
        = Inr (store_config (a\<lparr>arg_data_format := ''channels_last'', arg_padding := p\<rparr>) self1) \<and>
      SeparableConv2d_init (b\<lparr>arg_data_format := ''channels_last'', arg_padding := p\<rparr>) self2
        = Inr (store_config (b\<lparr>arg_data_format := ''channels_last'', arg_padding := p\<rparr>) self2))"
proof -
  have "d \<notin> {''channels_last'', ''channels_first''}" if "d \<noteq> lower d"
    using that lower_fixed by auto
  then show ?thesis
    by (auto simp: SeparableConv1d_init_def SeparableConv2d_init_def Layer_init_def)
qed

theorem C10_data_format_case_sensitive_witness:
  "SeparableConv1d_init (SeparableConv1d_defaults\<lparr>arg_data_format := ''Channels_Last''\<rparr>) (new_layer :: (int, int, nat, unit) layer)
     = Inl (ValueError data_format_msg, new_layer) \<and>
   SeparableConv2d_init (SeparableConv2d_defaults\<lparr>arg_data_format := ''Channels_Last''\<rparr>) (new_layer :: (size, int, nat, unit) layer)
     = Inl (ValueError data_format_msg, new_layer) \<and>
   SeparableConv1d_init (SeparableConv1d_defaults\<lparr>arg_data_format := ''channels_last'', arg_padding := ''VALID''\<rparr>) (new_layer :: (int, int, nat, unit) layer)
     = Inr (store_config (SeparableConv1d_defaults\<lparr>arg_data_format := ''channels_last'', arg_padding := ''VALID''\<rparr>) new_layer) \<and>
   SeparableConv2d_init (SeparableConv2d_defaults\<lparr>arg_data_format := ''channels_last'', arg_padding := ''VALID''\<rparr>) (new_layer :: (size, int, nat, unit) layer)
     = Inr (store_config (SeparableConv2d_defaults\<lparr>arg_data_format := ''channels_last'', arg_padding := ''VALID''\<rparr>) new_layer)"
  using C10_data_format_case_sensitive [where d = "''Channels_Last''" and p = "''VALID''"
      and a = "SeparableConv1d_defaults" and b = "SeparableConv2d_defaults"
      and ?self1.0 = "new_layer :: (int, int, nat, unit) layer" and ?self2.0 = "new_layer :: (size, int, nat, unit) layer"]
  by (simp add: lower_def lower_char_def)

text \<open>
  C9: with every argument omitted, the constructors store the defaults: 100
  filters, filter size 3 or (3, 3), strides 1 or (1, 1), padding \<^verbatim>\<open>valid\<close>,
  \<^verbatim>\<open>channels_last\<close>, dilation rate 1 or (1, 1), depth multiplier 1, the zeros
  initializer for the bias and no activation.
\<close>

theorem C9_defaults:
  "SeparableConv1d_init SeparableConv1d_defaults (self1 :: (int, 't, 'p, 'i) layer) =
     Inr (self1\<lparr> prev_layer := Some None, n_filter := Some 100, filter_size := Some 3,
       strides := Some 1, padding := Some ''valid'', data_format := Some ''channels_last'',
       dilation_rate := Some 1, depth_multiplier := Some 1, depthwise_init := Some None,
       pointwise_init := Some None, b_init := Some (Some zeros_initializer), act := Some None,
       name := Some ''separable_conv1d'' \<rparr>) \<and>
   SeparableConv2d_init SeparableConv2d_defaults (self2 :: (size, 't, 'p, 'i) layer) =
     Inr (self2\<lparr> prev_layer := Some None, n_filter := Some 100, filter_size := Some (STuple [3, 3]),
       strides := Some (STuple [1, 1]), padding := Some ''valid'', data_format := Some ''channels_last'',
       dilation_rate := Some (STuple [1, 1]), depth_multiplier := Some 1, depthwise_init := Some None,
       pointwise_init := Some None, b_init := Some (Some zeros_initializer), act := Some None,
       name := Some ''separable_conv2d'' \<rparr>)"
  by (simp add: SeparableConv1d_init_def SeparableConv2d_init_def Layer_init_def store_config_def
      SeparableConv1d_defaults_def SeparableConv2d_defaults_def lower_fixed)

subsection \<open>The summary\<close>

text \<open>
  C8: \<^verbatim>\<open>__str__\<close> builds its list without raising on every instance, whatever
  attributes are set: the list holds the entries of the attributes that are set
  and leaves the others out, and it is handed to the \<^verbatim>\<open>_str\<close> of the base class.
\<close>

theorem C8_describe:
  "SeparableConv1d_additional_str self1 = Inr (summary1d self1) \<and>
   SeparableConv2d_additional_str self2 = Inr (summary2d self2) \<and>
   SeparableConv1d_str base1 self1 = base1 self1 (summary1d self1) \<and>
   SeparableConv2d_str base2 self2 = base2 self2 (summary2d self2)"
proof -
  have one: "SeparableConv1d_additional_str self1 = Inr (summary1d self1)"
    unfolding SeparableConv1d_additional_str_def summary1d_def
    by (simp only: try_append_getattr try_append_act_entry bind_err_Inr append_Nil append_assoc)
  have two: "SeparableConv2d_additional_str self2 = Inr (summary2d self2)"
    unfolding SeparableConv2d_additional_str_def summary2d_def
    by (simp only: try_append_getattr try_append_act_entry bind_err_Inr append_Nil append_assoc)
  show ?thesis
    by (simp add: one two SeparableConv1d_str_def SeparableConv2d_str_def bind_err_Inr)
qed

subsection \<open>Apply\<close>

text \<open>
  C5: in both classes the primitive is invoked with \<^verbatim>\<open>use_bias\<close> false when
  \<^verbatim>\<open>b_init\<close> is \<^verbatim>\<open>None\<close> and true for every other \<^verbatim>\<open>b_init\<close>. On every
  constructed layer the keyword arguments are built without raising, with
  \<^verbatim>\<open>use_bias\<close> equal to "the bias initializer given to the constructor is not
  \<^verbatim>\<open>None\<close>", and \<^verbatim>\<open>__call__\<close> is: enter the scope, run the primitive on exactly
  these keyword arguments, finish with its output. On any instance, keyword
  arguments that are built have \<^verbatim>\<open>use_bias\<close> equal to "\<^verbatim>\<open>b_init\<close> is not \<^verbatim>\<open>None\<close>", and
  \<^verbatim>\<open>__call__\<close> behaves as with a primitive that is only ever given this value.
\<close>

theorem C5_use_bias:
  "(SeparableConv1d_kwargs self1 tr ru = Inr kw1 \<longrightarrow> kw_use_bias kw1 = (b_init self1 \<noteq> Some None)) \<and>
   (SeparableConv2d_kwargs self2 tr ru = Inr kw2 \<longrightarrow> kw_use_bias kw2 = (b_init self2 \<noteq> Some None)) \<and>
   SeparableConv1d_call
     (fw\<lparr>separable_conv1d := \<lambda>vs kw. separable_conv1d fw vs (kw\<lparr>kw_use_bias := (b_init self1 \<noteq> Some None)\<rparr>)\<rparr>)
     prev tr g self1 = SeparableConv1d_call fw prev tr g self1 \<and>
   SeparableConv2d_call
     (fw\<lparr>separable_conv2d := \<lambda>vs kw. separable_conv2d fw vs (kw\<lparr>kw_use_bias := (b_init self2 \<noteq> Some None)\<rparr>)\<rparr>)
     prev tr g self2 = SeparableConv2d_call fw prev tr g self2 \<and>
   (SeparableConv1d_init a s1 = Inr l1 \<longrightarrow>
      (let kw = \<lparr> kw_inputs = prev_outputs prev, kw_filters = arg_n_filter a,
          kw_kernel_size = arg_filter_size a, kw_strides = arg_strides a,
          kw_padding = arg_padding a, kw_data_format = arg_data_format a,
          kw_dilation_rate = arg_dilation_rate a, kw_depth_multiplier = arg_depth_multiplier a,
          kw_activation = None, kw_use_bias = (arg_b_init a \<noteq> None),
          kw_depthwise_initializer = arg_depthwise_init a,
          kw_pointwise_initializer = arg_pointwise_init a,
          kw_bias_initializer = arg_b_init a, kw_trainable = tr,
          kw_reuse = get_variable_scope_reuse fw g, kw_name = ''separable_conv1d'' \<rparr>
       in SeparableConv1d_kwargs (Layer_call l1 prev) tr (get_variable_scope_reuse fw g) = Inr kw \<and>
          SeparableConv1d_call fw prev tr g l1 =
            bind_err (variable_scope fw (arg_name a) g) (\<lambda>vs.
            bind_err (separable_conv1d fw vs kw g) (\<lambda>(out, g').
            bind_err (finish_call fw vs (Layer_call l1 prev) out g') (\<lambda>(r, s, g''). Inr (s, s, g'')))))) \<and>
   (SeparableConv2d_init b s2 = Inr l2 \<longrightarrow>
      (let kw = \<lparr> kw_inputs = prev_outputs prev, kw_filters = arg_n_filter b,
          kw_kernel_size = arg_filter_size b, kw_strides = arg_strides b,
          kw_padding = arg_padding b, kw_data_format = arg_data_format b,
          kw_dilation_rate = arg_dilation_rate b, kw_depth_multiplier = arg_depth_multiplier b,
          kw_activation = None, kw_use_bias = (arg_b_init b \<noteq> None),
          kw_depthwise_initializer = arg_depthwise_init b,
          kw_pointwise_initializer = arg_pointwise_init b,
          kw_bias_initializer = arg_b_init b, kw_trainable = tr,
          kw_reuse = get_variable_scope_reuse fw g, kw_name = ''separable_conv2d'' \<rparr>
       in SeparableConv2d_kwargs (Layer_call l2 prev) tr (get_variable_scope_reuse fw g) = Inr kw \<and>
          SeparableConv2d_call fw prev tr g l2 =
            bind_err (variable_scope fw (arg_name b) g) (\<lambda>vs.
            bind_err (separable_conv2d fw vs kw g) (\<lambda>(out, g').
            bind_err (finish_call fw vs (Layer_call l2 prev) out g') (\<lambda>(r, s, g''). Inr (s, s, g''))))))"
  apply (intro conjI impI)
  subgoal by (simp add: kwargs1d_use_bias)
  subgoal by (simp add: kwargs2d_use_bias)
  subgoal by (simp add: call_body1d_use_bias SeparableConv1d_call_def force_return_self_def)
  subgoal by (simp add: call_body2d_use_bias SeparableConv2d_call_def force_return_self_def)
  subgoal by (drule init1d_Inr) (simp add: Let_def kwargs1d_constructed call1d_constructed)
  subgoal by (drule init2d_Inr) (simp add: Let_def kwargs2d_constructed call2d_constructed)
  done

theorem C5_use_bias_witness:
  "(case SeparableConv1d_kwargs (Layer_call relu_layer1d \<lparr>prev_outputs = 3\<rparr>) True False of
      Inl e \<Rightarrow> False | Inr kw \<Rightarrow> kw_use_bias kw) \<and>
   (case SeparableConv2d_kwargs (Layer_call (relu_layer2d\<lparr>b_init := Some None\<rparr>) \<lparr>prev_outputs = 3\<rparr>) True False of
      Inl e \<Rightarrow> False | Inr kw \<Rightarrow> \<not> kw_use_bias kw) \<and>
   (case SeparableConv1d_call bias_probe_framework \<lparr>prev_outputs = 3\<rparr> True [] relu_layer1d of
      Inl e \<Rightarrow> None | Inr (r, s, g) \<Rightarrow> Some (outputs s)) = Some (Some 1) \<and>
   (case SeparableConv1d_call bias_probe_framework \<lparr>prev_outputs = 3\<rparr> True []
           (store_config (SeparableConv1d_defaults\<lparr>arg_b_init := None\<rparr>) new_layer) of
      Inl e \<Rightarrow> None | Inr (r, s, g) \<Rightarrow> Some (outputs s)) = Some (Some 0) \<and>
   (case SeparableConv2d_call bias_probe_framework \<lparr>prev_outputs = 3\<rparr> True [] relu_layer2d of
      Inl e \<Rightarrow> None | Inr (r, s, g) \<Rightarrow> Some (outputs s)) = Some (Some 1) \<and>
   (case SeparableConv2d_call bias_probe_framework \<lparr>prev_outputs = 3\<rparr> True []
           (store_config (SeparableConv2d_defaults\<lparr>arg_b_init := None\<rparr>) new_layer) of
      Inl e \<Rightarrow> None | Inr (r, s, g) \<Rightarrow> Some (outputs s)) = Some (Some 0)"
proof -
  note k1 = C5_use_bias [where ?self1.0 = "Layer_call relu_layer1d \<lparr>prev_outputs = 3\<rparr>"
      and tr = True and ru = False, THEN conjunct1, rule_format, OF example_kwargs(1)]
  note k2 = C5_use_bias [where ?self2.0 = "Layer_call (relu_layer2d\<lparr>b_init := Some None\<rparr>) \<lparr>prev_outputs = 3\<rparr>"
      and tr = True and ru = False, THEN conjunct2, THEN conjunct1, rule_format, OF example_kwargs(2)]
  note on1 = C5_use_bias [where fw = bias_probe_framework and prev = "\<lparr>prev_outputs = 3\<rparr>" and tr = True
      and g = "[]", THEN conjunct2, THEN conjunct2, THEN conjunct2, THEN conjunct2, THEN conjunct1,
      rule_format, OF example_init(1)]
  note off1 = C5_use_bias [where fw = bias_probe_framework and prev = "\<lparr>prev_outputs = 3\<rparr>" and tr = True
      and g = "[]", THEN conjunct2, THEN conjunct2, THEN conjunct2, THEN conjunct2, THEN conjunct1,
      rule_format, OF example_init_no_bias(1)]
  note on2 = C5_use_bias [where fw = bias_probe_framework and prev = "\<lparr>prev_outputs = 3\<rparr>" and tr = True
      and g = "[]", THEN conjunct2, THEN conjunct2, THEN conjunct2, THEN conjunct2, THEN conjunct2,
      rule_format, OF example_init(2)]
  note off2 = C5_use_bias [where fw = bias_probe_framework and prev = "\<lparr>prev_outputs = 3\<rparr>" and tr = True
      and g = "[]", THEN conjunct2, THEN conjunct2, THEN conjunct2, THEN conjunct2, THEN conjunct2,
      rule_format, OF example_init_no_bias(2)]
  have fin: "finish_call bias_probe_framework vs (Layer_call (store_config a s0) prev) out g'
      = Inr ((), (Layer_call (store_config a s0) prev)\<lparr> outputs := Some out,
          local_weights := Some (get_collection bias_probe_framework
             (TF_GRAPHKEYS_VARIABLES bias_probe_framework) (vs_name bias_probe_framework vs) g'),
          all_layers := all_layers s0 @ [out],
          all_params := all_params s0 @ get_collection bias_probe_framework
             (TF_GRAPHKEYS_VARIABLES bias_probe_framework) (vs_name bias_probe_framework vs) g' \<rparr>, g')"
    for vs a s0 prev out g'
    by (rule finish_call_constructed)
  have r1: "(case SeparableConv1d_call bias_probe_framework \<lparr>prev_outputs = 3\<rparr> True [] relu_layer1d of
      Inl e \<Rightarrow> None | Inr (r, s, g) \<Rightarrow> Some (outputs s)) = Some (Some 1)"
    using on1 unfolding Let_def relu_layer1d_def fin
    by (simp add: bias_probe_framework_def example_framework_def bind_err_def
        SeparableConv1d_defaults_def)
  have r2: "(case SeparableConv1d_call bias_probe_framework \<lparr>prev_outputs = 3\<rparr> True []
           (store_config (SeparableConv1d_defaults\<lparr>arg_b_init := None\<rparr>) new_layer) of
      Inl e \<Rightarrow> None | Inr (r, s, g) \<Rightarrow> Some (outputs s)) = Some (Some 0)"
    using off1 unfolding Let_def fin
    by (simp add: bias_probe_framework_def example_framework_def bind_err_def
        SeparableConv1d_defaults_def)
  have r3: "(case SeparableConv2d_call bias_probe_framework \<lparr>prev_outputs = 3\<rparr> True [] relu_layer2d of
      Inl e \<Rightarrow> None | Inr (r, s, g) \<Rightarrow> Some (outputs s)) = Some (Some 1)"
    using on2 unfolding Let_def relu_layer2d_def fin
    by (simp add: bias_probe_framework_def example_framework_def bind_err_def
        SeparableConv2d_defaults_def)
  have r4: "(case SeparableConv2d_call bias_probe_framework \<lparr>prev_outputs = 3\<rparr> True []
           (store_config (SeparableConv2d_defaults\<lparr>arg_b_init := None\<rparr>) new_layer) of
      Inl e \<Rightarrow> None | Inr (r, s, g) \<Rightarrow> Some (outputs s)) = Some (Some 0)"
    using off2 unfolding Let_def fin
    by (simp add: bias_probe_framework_def example_framework_def bind_err_def
        SeparableConv2d_defaults_def)
  show ?thesis
    using k1 k2 r1 r2 r3 r4 by (simp add: example_kwargs)
qed

text \<open>
  C1, at one input: a layer built with the activation \<open>relu\<close> is applied to a
  predecessor whose output is 3; the primitive returns -2. The tensor the layer
  registers as its output, and appends to the output history, is -2, the raw
  output, while the activation helper gives 0 on it: the value the helper
  returns is not assigned to \<^verbatim>\<open>self.outputs\<close>.
\<close>

theorem C1_activation_result_unused:
  "SeparableConv1d_init (SeparableConv1d_defaults\<lparr>arg_act := Some relu\<rparr>) new_layer = Inr relu_layer1d \<and>
   (case SeparableConv1d_call example_framework \<lparr>prev_outputs = 3\<rparr> True [] relu_layer1d of
      Inl e \<Rightarrow> None | Inr (r, s, g) \<Rightarrow> Some (outputs s, all_layers s)) = Some (Some (- 2), [- 2]) \<and>
   apply_activation relu_layer1d (- 2) = Inr 0 \<and>
   SeparableConv2d_init (SeparableConv2d_defaults\<lparr>arg_act := Some relu\<rparr>) new_layer = Inr relu_layer2d \<and>
   (case SeparableConv2d_call example_framework \<lparr>prev_outputs = 3\<rparr> True [] relu_layer2d of
      Inl e \<Rightarrow> None | Inr (r, s, g) \<Rightarrow> Some (outputs s, all_layers s)) = Some (Some (- 2), [- 2]) \<and>
   apply_activation relu_layer2d (- 2) = Inr 0"
proof -
  have a1: "apply_activation relu_layer1d (- 2) = Inr 0"
    by (simp add: apply_activation_def relu_layer1d_def store_config_def getattr_def bind_err_def
        relu_def SeparableConv1d_defaults_def)
  have a2: "apply_activation relu_layer2d (- 2) = Inr 0"
    by (simp add: apply_activation_def relu_layer2d_def store_config_def getattr_def bind_err_def
        relu_def SeparableConv2d_defaults_def)
  show ?thesis
    by (simp add: example_init a1 a2 SeparableConv1d_call_def SeparableConv2d_call_def
        force_return_self_def example_call_body1d example_call_body2d bind_err_Inr)
qed

text \<open>
  C7: whenever the body of \<^verbatim>\<open>__call__\<close> returns, \<^verbatim>\<open>__call__\<close> returns the instance
  itself, in the state the body left it; so the value of every successful
  \<^verbatim>\<open>__call__\<close> is the instance.
\<close>

theorem C7_call_returns_self:
  "(SeparableConv1d_call_body fw prev tr g self1 = Inr (u1, s1, g1) \<longrightarrow>
      SeparableConv1d_call fw prev tr g self1 = Inr (s1, s1, g1)) \<and>
   (SeparableConv1d_call fw prev tr g self1 = Inr (r1, t1, h1) \<longrightarrow> r1 = t1) \<and>
   (SeparableConv2d_call_body fw prev tr g self2 = Inr (u2, s2, g2) \<longrightarrow>
      SeparableConv2d_call fw prev tr g self2 = Inr (s2, s2, g2)) \<and>
   (SeparableConv2d_call fw prev tr g self2 = Inr (r2, t2, h2) \<longrightarrow> r2 = t2)"
  by (auto simp: SeparableConv1d_call_def SeparableConv2d_call_def force_return_self_Inr)

theorem C7_call_returns_self_witness:
  "SeparableConv1d_call example_framework \<lparr>prev_outputs = 3\<rparr> True [] relu_layer1d =
     Inr ((Layer_call relu_layer1d \<lparr>prev_outputs = 3\<rparr>)\<lparr> outputs := Some (- 2),
            local_weights := Some [''separable_conv1d/kernel''],
            all_layers := [- 2], all_params := [''separable_conv1d/kernel''] \<rparr>,
          (Layer_call relu_layer1d \<lparr>prev_outputs = 3\<rparr>)\<lparr> outputs := Some (- 2),
            local_weights := Some [''separable_conv1d/kernel''],
            all_layers := [- 2], all_params := [''separable_conv1d/kernel''] \<rparr>,
          [''separable_conv1d/kernel'']) \<and>
   SeparableConv2d_call example_framework \<lparr>prev_outputs = 3\<rparr> True [] relu_layer2d =
     Inr ((Layer_call relu_layer2d \<lparr>prev_outputs = 3\<rparr>)\<lparr> outputs := Some (- 2),
            local_weights := Some [''separable_conv2d/kernel''],
            all_layers := [- 2], all_params := [''separable_conv2d/kernel''] \<rparr>,
          (Layer_call relu_layer2d \<lparr>prev_outputs = 3\<rparr>)\<lparr> outputs := Some (- 2),
            local_weights := Some [''separable_conv2d/kernel''],
            all_layers := [- 2], all_params := [''separable_conv2d/kernel''] \<rparr>,
          [''separable_conv2d/kernel''])"
  using C7_call_returns_self [where fw = example_framework and prev = "\<lparr>prev_outputs = 3\<rparr>"
      and tr = True and g = "[]" and ?self1.0 = relu_layer1d and ?self2.0 = relu_layer2d,
      THEN conjunct1, rule_format, OF example_call_body1d]
    C7_call_returns_self [where fw = example_framework and prev = "\<lparr>prev_outputs = 3\<rparr>"
      and tr = True and g = "[]" and ?self1.0 = relu_layer1d and ?self2.0 = relu_layer2d,
      THEN conjunct2, THEN conjunct2, THEN conjunct1, rule_format, OF example_call_body2d]
  by simp

text \<open>
  C6: a constructor that raises has raised one of the two \<^verbatim>\<open>ValueError\<close>s of the
  validation and has stored nothing, the instance being as it was on entry; and
  on a constructed instance \<^verbatim>\<open>__call__\<close> raises only what the framework raised, on
  entering the scope or in the primitive.
\<close>

theorem C6_validation_at_construction:
  "(SeparableConv1d_init a self1 = Inl (e1, s1) \<longrightarrow>
      s1 = self1 \<and> (e1 = ValueError data_format_msg \<or> e1 = ValueError padding_msg)) \<and>
   (SeparableConv2d_init b self2 = Inl (e2, s2) \<longrightarrow>
      s2 = self2 \<and> (e2 = ValueError data_format_msg \<or> e2 = ValueError padding_msg)) \<and>
   (SeparableConv1d_init a self1 = Inr l1 \<and> SeparableConv1d_call fw prev tr g l1 = Inl x1 \<longrightarrow>
      variable_scope fw (arg_name a) g = Inl x1 \<or>
      (\<exists>vs kw. variable_scope fw (arg_name a) g = Inr vs \<and> separable_conv1d fw vs kw g = Inl x1)) \<and>
   (SeparableConv2d_init b self2 = Inr l2 \<and> SeparableConv2d_call fw prev tr g l2 = Inl x2 \<longrightarrow>
      variable_scope fw (arg_name b) g = Inl x2 \<or>
      (\<exists>vs kw. variable_scope fw (arg_name b) g = Inr vs \<and> separable_conv2d fw vs kw g = Inl x2))"
  using init_Inl(1) [of a self1 e1 s1] init_Inl(2) [of b self2 e2 s2]
    call1d_constructed_Inl [of fw prev tr g a self1 x1] call2d_constructed_Inl [of fw prev tr g b self2 x2]
    init1d_Inr [of a self1 l1] init2d_Inr [of b self2 l2]
  by blast

theorem C6_validation_at_construction_witness:
  "SeparableConv1d_init (SeparableConv1d_defaults\<lparr>arg_data_format := ''NCHW''\<rparr>)
     (new_layer :: (int, int, string, unit) layer) = Inl (ValueError data_format_msg, new_layer) \<and>
   SeparableConv2d_init (SeparableConv2d_defaults\<lparr>arg_padding := ''full''\<rparr>)
     (new_layer :: (size, int, string, unit) layer) = Inl (ValueError padding_msg, new_layer) \<and>
   SeparableConv1d_call failing_framework \<lparr>prev_outputs = 3\<rparr> True [] relu_layer1d
     = Inl (FrameworkError ''separable_conv1d'') \<and>
   (\<exists>vs kw. separable_conv1d failing_framework vs kw [] = Inl (FrameworkError ''separable_conv1d'')) \<and>
   SeparableConv2d_call failing_framework \<lparr>prev_outputs = 3\<rparr> True [] relu_layer2d
     = Inl (FrameworkError ''separable_conv2d'') \<and>
   (\<exists>vs kw. separable_conv2d failing_framework vs kw [] = Inl (FrameworkError ''separable_conv2d''))"
proof -
  have vs: "variable_scope failing_framework nm [] \<noteq> Inl x" for nm x
    by (simp add: failing_framework_def example_framework_def)
  note c6 = C6_validation_at_construction [where a = "SeparableConv1d_defaults\<lparr>arg_data_format := ''NCHW''\<rparr>"
      and b = "SeparableConv2d_defaults\<lparr>arg_padding := ''full''\<rparr>"
      and ?self1.0 = "new_layer :: (int, int, string, unit) layer"
      and ?self2.0 = "new_layer :: (size, int, string, unit) layer"
      and ?e1.0 = "ValueError data_format_msg" and ?e2.0 = "ValueError padding_msg"
      and ?s1.0 = new_layer and ?s2.0 = new_layer]
  note c6' = C6_validation_at_construction [where a = "SeparableConv1d_defaults\<lparr>arg_act := Some relu\<rparr>"
      and b = "SeparableConv2d_defaults\<lparr>arg_act := Some relu\<rparr>"
      and ?self1.0 = new_layer and ?self2.0 = new_layer
      and ?l1.0 = relu_layer1d and ?l2.0 = relu_layer2d
      and fw = failing_framework and prev = "\<lparr>prev_outputs = 3\<rparr>" and tr = True and g = "[]"
      and ?x1.0 = "FrameworkError ''separable_conv1d''" and ?x2.0 = "FrameworkError ''separable_conv2d''"]
  from c6' [THEN conjunct2, THEN conjunct2, THEN conjunct1, rule_format,
      OF conjI [OF example_init(1) example_call_fails(1)]] vs
  have p1: "\<exists>vs kw. separable_conv1d failing_framework vs kw [] = Inl (FrameworkError ''separable_conv1d'')"
    by blast
  from c6' [THEN conjunct2, THEN conjunct2, THEN conjunct2, rule_format,
      OF conjI [OF example_init(2) example_call_fails(2)]] vs
  have p2: "\<exists>vs kw. separable_conv2d failing_framework vs kw [] = Inl (FrameworkError ''separable_conv2d'')"
    by blast
  note r1 = c6 [THEN conjunct1, rule_format, OF example_init_fails(1)]
  note r2 = c6 [THEN conjunct2, THEN conjunct1, rule_format, OF example_init_fails(2)]
  show ?thesis
    using p1 p2 r1 r2 example_init_fails example_call_fails by simp
qed

end
